theory Spec2Isabelle
  imports Main "HOL-Library.Sublist"
begin

section \<open>JavaScript values used by the controller\<close>

text \<open>
  A value thrown by a service call and caught by a handler. The handlers read two
  properties of it, \<^verbatim>\<open>error.statusCode\<close> and \<^verbatim>\<open>error.message\<close>; either may be
  missing (\<^verbatim>\<open>undefined\<close>), which is \<open>None\<close> here.
\<close>

record js_error =
  error_statusCode :: "int option"
  error_message :: "string option"

text \<open>
  \<^verbatim>\<open>a || b\<close> yields \<^verbatim>\<open>b\<close> when \<^verbatim>\<open>a\<close> is falsy. A number is falsy when it is
  \<^verbatim>\<open>undefined\<close> or 0, a string when it is \<^verbatim>\<open>undefined\<close> or empty.
\<close>

definition or_number :: "int option \<Rightarrow> int \<Rightarrow> int" where
  "or_number a b = (case a of None \<Rightarrow> b | Some n \<Rightarrow> if n = 0 then b else n)"

definition or_string :: "string option \<Rightarrow> string \<Rightarrow> string" where
  "or_string a b = (case a of None \<Rightarrow> b | Some s \<Rightarrow> if s = [] then b else s)"

text \<open>The members of \<^verbatim>\<open>HttpStatus\<close> that the controller names.\<close>

definition HttpStatus_OK :: int where
  "HttpStatus_OK = 200"

definition HttpStatus_CREATED :: int where
  "HttpStatus_CREATED = 201"

definition HttpStatus_NOT_FOUND :: int where
  "HttpStatus_NOT_FOUND = 404"

definition HttpStatus_UNPROCESSABLE_ENTITY :: int where
  "HttpStatus_UNPROCESSABLE_ENTITY = 422"

definition HttpStatus_INTERNAL_SERVER_ERROR :: int where
  "HttpStatus_INTERNAL_SERVER_ERROR = 500"

section \<open>Data of the video module\<close>

text \<open>\<^verbatim>\<open>ApiResponse<T>\<close>: the envelope every handler returns; \<^verbatim>\<open>data: null\<close> is \<open>None\<close>.\<close>

record 'a ApiResponse =
  statusCode :: int
  message :: string
  data :: "'a option"

text \<open>
  \<^verbatim>\<open>Express.Multer.File\<close>, with the properties the upload endpoint reads, and the
  two DTOs. The entity \<^verbatim>\<open>Video\<close> has the attributes of a VideoRecord; the controller
  reads \<^verbatim>\<open>id\<close> and \<^verbatim>\<open>fileKey\<close>, and tests \<^verbatim>\<open>fileKey\<close> for being falsy.
\<close>

record File =
  originalname :: string
  mimetype :: string
  file_size :: nat

record CreateVideoDto =
  dto_title :: string
  dto_description :: "string option"

record UpdateVideoDto =
  upd_title :: "string option"
  upd_description :: "string option"

record Video =
  video_id :: string
  title :: string
  description :: "string option"
  fileKey :: "string option"
  video_originalname :: string
  video_size :: nat
  video_mimetype :: string

section \<open>The injected services\<close>

text \<open>
  \<^verbatim>\<open>VideoService\<close> and \<^verbatim>\<open>S3Service\<close> are injected into the controller. Each method
  is a function of the state \<open>'w\<close> of everything outside the controller (record store,
  object storage); it returns the new state, and either the value the promise resolves
  to (\<open>Inr\<close>) or the value it rejects with (\<open>Inl\<close>). A result the handler tests
  with \<^verbatim>\<open>!x\<close> is an option, \<open>None\<close> being \<^verbatim>\<open>null\<close>.
\<close>

record 'w VideoService =
  videoService_upload :: "File \<Rightarrow> CreateVideoDto \<Rightarrow> 'w \<Rightarrow> (js_error + Video) \<times> 'w"
  videoService_findAll :: "'w \<Rightarrow> (js_error + Video list) \<times> 'w"
  videoService_findOne :: "string \<Rightarrow> 'w \<Rightarrow> (js_error + Video option) \<times> 'w"
  videoService_update :: "string \<Rightarrow> UpdateVideoDto \<Rightarrow> 'w \<Rightarrow> (js_error + Video option) \<times> 'w"
  videoService_remove :: "string \<Rightarrow> 'w \<Rightarrow> (js_error + Video option) \<times> 'w"

record 'w S3Service =
  s3Service_getSignedUrl :: "string \<Rightarrow> 'w \<Rightarrow> (js_error + string) \<times> 'w"

text \<open>
  A run of a handler carries the outside state and the list of service calls made so
  far, oldest first.
\<close>

datatype call =
  Call_upload File CreateVideoDto
  | Call_findAll
  | Call_findOne string
  | Call_update string UpdateVideoDto
  | Call_remove string
  | Call_getSignedUrl string

record 'w run =
  world :: 'w
  calls :: "call list"

definition await :: "call \<Rightarrow> ('w \<Rightarrow> 'r \<times> 'w) \<Rightarrow> 'w run \<Rightarrow> 'r \<times> 'w run" where
  "await c f s = (case f (world s) of (r, w') \<Rightarrow> (r, \<lparr>world = w', calls = calls s @ [c]\<rparr>))"

section \<open>The controller\<close>

text \<open>
  The \<^verbatim>\<open>catch\<close> block of every handler: the envelope built from the caught value and
  the handler's own default message.
\<close>

definition catch_envelope :: "js_error \<Rightarrow> string \<Rightarrow> 'a ApiResponse" where
  "catch_envelope error dflt =
     \<lparr>statusCode = or_number (error_statusCode error) HttpStatus_INTERNAL_SERVER_ERROR,
      message = or_string (error_message error) dflt,
      data = None\<rparr>"

text \<open>
  The status an error is to be translated to: its own code when it carries one (a code
  that \<^verbatim>\<open>||\<close> does not take for missing), the generic server error otherwise.
\<close>

definition translated_status :: "js_error \<Rightarrow> int" where
  "translated_status e =
     (case error_statusCode e of None \<Rightarrow> 500 | Some c \<Rightarrow> if c = 0 then 500 else c)"

text \<open>An envelope whose status is not a success code carries no data.\<close>

definition null_unless_success :: "'a ApiResponse \<Rightarrow> bool" where
  "null_unless_success r = (statusCode r \<noteq> 200 \<and> statusCode r \<noteq> 201 \<longrightarrow> data r = None)"

definition uploadVideo ::
  "'w VideoService \<Rightarrow> File \<Rightarrow> CreateVideoDto \<Rightarrow> 'w run \<Rightarrow> Video ApiResponse \<times> 'w run" where
  "uploadVideo videoService file createVideoDto s =
     (case await (Call_upload file createVideoDto)
             (videoService_upload videoService file createVideoDto) s of
        (Inl error, s') \<Rightarrow> (catch_envelope error ''Error al subir el video'', s')
      | (Inr video, s') \<Rightarrow>
          (\<lparr>statusCode = HttpStatus_CREATED,
            message = ''Video subido exitosamente'',
            data = Some video\<rparr>, s'))"

definition findAll :: "'w VideoService \<Rightarrow> 'w run \<Rightarrow> Video list ApiResponse \<times> 'w run" where
  "findAll videoService s =
     (case await Call_findAll (videoService_findAll videoService) s of
        (Inl error, s') \<Rightarrow> (catch_envelope error ''Error al obtener los videos'', s')
      | (Inr videos, s') \<Rightarrow>
          (\<lparr>statusCode = HttpStatus_OK,
            message = ''Videos obtenidos exitosamente'',
            data = Some videos\<rparr>, s'))"

definition findOne :: "'w VideoService \<Rightarrow> string \<Rightarrow> 'w run \<Rightarrow> Video ApiResponse \<times> 'w run" where
  "findOne videoService ident s =
     (case await (Call_findOne ident) (videoService_findOne videoService ident) s of
        (Inl error, s') \<Rightarrow> (catch_envelope error ''Error al obtener el video'', s')
      | (Inr None, s') \<Rightarrow>
          (\<lparr>statusCode = HttpStatus_OK, message = ''Video no encontrado'', data = None\<rparr>, s')
      | (Inr (Some video), s') \<Rightarrow>
          (\<lparr>statusCode = HttpStatus_OK,
            message = ''Video obtenido exitosamente'',
            data = Some video\<rparr>, s'))"

definition getSignedUrl ::
  "'w VideoService \<Rightarrow> 'w S3Service \<Rightarrow> string \<Rightarrow> 'w run \<Rightarrow> string ApiResponse \<times> 'w run" where
  "getSignedUrl videoService s3Service ident s =
     (let notFound = \<lparr>statusCode = HttpStatus_NOT_FOUND,
                       message = ''Video no encontrado'',
                       data = None\<rparr>
      in case await (Call_findOne ident) (videoService_findOne videoService ident) s of
        (Inl error, s') \<Rightarrow> (catch_envelope error ''Error al obtener la URL firmada'', s')
      | (Inr None, s') \<Rightarrow> (notFound, s')
      | (Inr (Some video), s') \<Rightarrow>
          (case fileKey video of
             None \<Rightarrow> (notFound, s')
           | Some key \<Rightarrow>
               if key = [] then (notFound, s')
               else
                 (case await (Call_getSignedUrl key) (s3Service_getSignedUrl s3Service key) s' of
                    (Inl error, s'') \<Rightarrow>
                      (catch_envelope error ''Error al obtener la URL firmada'', s'')
                  | (Inr signedUrl, s'') \<Rightarrow>
                      (\<lparr>statusCode = HttpStatus_OK,
                        message = ''URL firmada obtenida exitosamente'',
                        data = Some signedUrl\<rparr>, s''))))"

definition update ::
  "'w VideoService \<Rightarrow> string \<Rightarrow> UpdateVideoDto \<Rightarrow> 'w run \<Rightarrow> Video ApiResponse \<times> 'w run" where
  "update videoService ident updateVideoDto s =
     (case await (Call_update ident updateVideoDto)
             (videoService_update videoService ident updateVideoDto) s of
        (Inl error, s') \<Rightarrow> (catch_envelope error ''Error al actualizar el video'', s')
      | (Inr None, s') \<Rightarrow>
          (\<lparr>statusCode = HttpStatus_OK, message = ''Video no encontrado'', data = None\<rparr>, s')
      | (Inr (Some updatedVideo), s') \<Rightarrow>
          (\<lparr>statusCode = HttpStatus_OK,
            message = ''Video actualizado exitosamente'',
            data = Some updatedVideo\<rparr>, s'))"

definition remove_video :: "'w VideoService \<Rightarrow> string \<Rightarrow> 'w run \<Rightarrow> unit ApiResponse \<times> 'w run" where
  "remove_video videoService ident s =
     (case await (Call_remove ident) (videoService_remove videoService ident) s of
        (Inl error, s') \<Rightarrow> (catch_envelope error ''Error al eliminar el video'', s')
      | (Inr None, s') \<Rightarrow>
          (\<lparr>statusCode = HttpStatus_OK, message = ''Video no encontrado'', data = None\<rparr>, s')
      | (Inr (Some deletedVideo), s') \<Rightarrow>
          (\<lparr>statusCode = HttpStatus_OK, message = ''Video eliminado exitosamente'', data = None\<rparr>, s'))"

section \<open>Validation in front of the upload handler\<close>

text \<open>
  \<^verbatim>\<open>String.prototype.match\<close> with a string argument compiles the string as a regular
  expression and searches for it anywhere in the receiver. The pattern language covered
  here is the one of \<^verbatim>\<open>'video/*'\<close>: literal characters, and \<^verbatim>\<open>c*\<close> for any number
  of repetitions of the character \<^verbatim>\<open>c\<close>.
\<close>

datatype atom = Lit char | Star char

fun compile :: "string \<Rightarrow> atom list" where
  "compile [] = []"
| "compile [c] = [Lit c]"
| "compile (c # d # rest) =
     (if d = CHR ''*'' then Star c # compile rest else Lit c # compile (d # rest))"

fun match_here :: "atom list \<Rightarrow> string \<Rightarrow> bool" where
  "match_here [] s = True"
| "match_here (Lit c # as) [] = False"
| "match_here (Lit c # as) (x # xs) = (x = c \<and> match_here as xs)"
| "match_here (Star c # as) [] = match_here as []"
| "match_here (Star c # as) (x # xs) =
     (match_here as (x # xs) \<or> (x = c \<and> match_here (Star c # as) xs))"

fun search :: "atom list \<Rightarrow> string \<Rightarrow> bool" where
  "search as [] = match_here as []"
| "search as (x # xs) = (match_here as (x # xs) \<or> search as xs)"

definition js_match :: "string \<Rightarrow> string \<Rightarrow> bool" where
  "js_match s pattern = search (compile pattern) s"

text \<open>
  The two validators handed to \<^verbatim>\<open>ParseFilePipe\<close>. \<^verbatim>\<open>MaxFileSizeValidator\<close> passes a file
  whose size is less than \<^verbatim>\<open>maxSize\<close>; \<^verbatim>\<open>FileTypeValidator\<close> passes a file whose
  \<^verbatim>\<open>mimetype\<close> matches \<^verbatim>\<open>fileType\<close>.
\<close>

datatype FileValidator = MaxFileSizeValidator nat | FileTypeValidator string

fun isValid :: "FileValidator \<Rightarrow> File \<Rightarrow> bool" where
  "isValid (MaxFileSizeValidator maxSize) file = (file_size file < maxSize)"
| "isValid (FileTypeValidator fileType) file = js_match (mimetype file) fileType"

definition validators :: "FileValidator list" where
  "validators = [MaxFileSizeValidator (1024 * 1024 * 2000), FileTypeValidator ''video/*'']"

text \<open>\<^verbatim>\<open>limits.fileSize\<close> of the \<^verbatim>\<open>FileInterceptor\<close>: a larger file does not get through.\<close>

definition limits_fileSize :: nat where
  "limits_fileSize = 1024 * 1024 * 2000"

text \<open>
  The envelope \<^verbatim>\<open>exceptionFactory\<close> builds from a validator's error text (the
  accented letter of the message is its two UTF-8 bytes).
\<close>

definition exceptionFactory :: "string \<Rightarrow> unit ApiResponse" where
  "exceptionFactory error =
     \<lparr>statusCode = HttpStatus_UNPROCESSABLE_ENTITY,
      message = ''Error de validaci'' @ [CHR 0xC3, CHR 0xB3] @ ''n del archivo: '' @ error,
      data = None\<rparr>"

text \<open>
  A request to \<^verbatim>\<open>POST videos/upload\<close> as the stages in front of the handler see it:
  the verdict of \<^verbatim>\<open>JwtAuthGuard\<close>, the file part of the form if there is one, and the
  body as the global \<^verbatim>\<open>ValidationPipe\<close> returns it, \<open>None\<close> when the pipe refuses the
  body. The guard and the class \<^verbatim>\<open>CreateVideoDto\<close> are not among the sources, so their
  verdicts come with the request.
\<close>

record UploadRequest =
  authorized :: bool
  upload_file :: "File option"
  upload_body :: "CreateVideoDto option"

text \<open>
  What a request stopped in front of the handler is answered with: the guard's 401,
  the interceptor's 413 for a file beyond \<^verbatim>\<open>limits.fileSize\<close>, the 400 of the
  \<^verbatim>\<open>ValidationPipe\<close>, or the value that \<^verbatim>\<open>exceptionFactory\<close> builds for \<^verbatim>\<open>ParseFilePipe\<close>.
\<close>

datatype rejection =
  Unauthorized | PayloadTooLarge | BadRequest | UnprocessableEntity "unit ApiResponse"

datatype 'a outcome = Rejected rejection | Handled 'a

text \<open>
  The stages run in this order: guard, interceptor, pipes, handler; the pipes of the
  last parameter (the body) run before those of the first (the file).
  \<^verbatim>\<open>ParseFilePipe\<close> refuses a missing file, and otherwise reports the first validator
  that does not pass, with the text \<open>buildErrorMessage\<close> that the validator gives for
  it. A rejected request leaves the run as it was: the handler body has not run.
\<close>

definition upload_endpoint ::
  "(FileValidator \<Rightarrow> File \<Rightarrow> string) \<Rightarrow> 'w VideoService \<Rightarrow> UploadRequest \<Rightarrow> 'w run
     \<Rightarrow> Video ApiResponse outcome \<times> 'w run" where
  "upload_endpoint buildErrorMessage videoService req s =
     (if \<not> authorized req then (Rejected Unauthorized, s)
      else if (case upload_file req of
                 None \<Rightarrow> False
               | Some file \<Rightarrow> \<not> file_size file \<le> limits_fileSize)
      then (Rejected PayloadTooLarge, s)
      else
        case upload_body req of
          None \<Rightarrow> (Rejected BadRequest, s)
        | Some createVideoDto \<Rightarrow>
            (case upload_file req of
               None \<Rightarrow> (Rejected (UnprocessableEntity (exceptionFactory ''File is required'')), s)
             | Some file \<Rightarrow>
                 (case find (\<lambda>v. \<not> isValid v file) validators of
                    Some v \<Rightarrow>
                      (Rejected (UnprocessableEntity (exceptionFactory (buildErrorMessage v file))),
                       s)
                  | None \<Rightarrow>
                      (case uploadVideo videoService file createVideoDto s of
                         (response, s') \<Rightarrow> (Handled response, s')))))"

section \<open>Test doubles for the injected services\<close>

text \<open>Services without state whose methods settle with fixed results.\<close>

definition stub_VideoService ::
  "(js_error + Video) \<Rightarrow> (js_error + Video list) \<Rightarrow> (js_error + Video option)
     \<Rightarrow> 'w VideoService" where
  "stub_VideoService uploaded listed found =
     \<lparr>videoService_upload = (\<lambda>file dto w. (uploaded, w)),
      videoService_findAll = (\<lambda>w. (listed, w)),
      videoService_findOne = (\<lambda>ident w. (found, w)),
      videoService_update = (\<lambda>ident dto w. (found, w)),
      videoService_remove = (\<lambda>ident w. (found, w))\<rparr>"

definition stub_S3Service :: "(js_error + string) \<Rightarrow> 'w S3Service" where
  "stub_S3Service signed = \<lparr>s3Service_getSignedUrl = (\<lambda>key w. (signed, w))\<rparr>"

definition start :: "unit run" where
  "start = \<lparr>world = (), calls = []\<rparr>"

definition sample_video :: Video where
  "sample_video =
     \<lparr>video_id = ''v1'', title = ''IV Insertion'', description = None,
      fileKey = Some ''7.mp4'', video_originalname = ''procedure1.mp4'',
      video_size = 10485760, video_mimetype = ''video/mp4''\<rparr>"

definition not_found_error :: js_error where
  "not_found_error = \<lparr>error_statusCode = Some 404, error_message = Some ''NoSuchKey''\<rparr>"

definition plain_error :: js_error where
  "plain_error = \<lparr>error_statusCode = None, error_message = None\<rparr>"

section \<open>The upload workflow behind \<^verbatim>\<open>videoService.upload\<close>\<close>

text \<open>
  Modelled from the spec: \<^verbatim>\<open>video.service.ts\<close> and \<^verbatim>\<open>s3.service.ts\<close> are not among the
  sources, so the Object Storage Gateway, the Video Record Store and the Upload Workflow
  below follow sections 3, 4.1, 4.2, 4.3 and 7 of the specification.
\<close>

datatype workflow_error =
  ValidationError | NotFound | StorageError | ConflictError | InternalError

datatype gateway_call = Put string nat | Delete string

text \<open>
  The state outside the controller: the objects of the gateway (key to byte length),
  the records of the store, the number of opaque identifiers drawn so far, and the
  calls the gateway has received.
\<close>

record storage =
  objects :: "string \<rightharpoonup> nat"
  records :: "Video list"
  issued :: nat
  gateway_calls :: "gateway_call list"

text \<open>What the external systems do during one run of the workflow.\<close>

record conditions =
  put_fails :: bool
  create_fails :: "workflow_error option"
  delete_fails :: bool

definition gateway_put ::
  "conditions \<Rightarrow> string \<Rightarrow> nat \<Rightarrow> storage \<Rightarrow> (workflow_error + unit) \<times> storage" where
  "gateway_put c key len w =
     (if put_fails c
      then (Inl StorageError, w\<lparr>gateway_calls := gateway_calls w @ [Put key len]\<rparr>)
      else (Inr (), w\<lparr>objects := (objects w)(key \<mapsto> len),
                       gateway_calls := gateway_calls w @ [Put key len]\<rparr>))"

definition gateway_delete ::
  "conditions \<Rightarrow> string \<Rightarrow> storage \<Rightarrow> (workflow_error + unit) \<times> storage" where
  "gateway_delete c key w =
     (if delete_fails c
      then (Inl StorageError, w\<lparr>gateway_calls := gateway_calls w @ [Delete key]\<rparr>)
      else (Inr (), w\<lparr>objects := (objects w)(key := None),
                       gateway_calls := gateway_calls w @ [Delete key]\<rparr>))"

text \<open>
  \<open>create\<close> fails when the store is unavailable, and when a record already has the
  storage key.
\<close>

definition create_failure :: "conditions \<Rightarrow> string \<Rightarrow> storage \<Rightarrow> workflow_error option" where
  "create_failure c key w =
     (case create_fails c of
        Some e \<Rightarrow> Some e
      | None \<Rightarrow> if list_ex (\<lambda>r. fileKey r = Some key) (records w) then Some ConflictError
                else None)"

definition store_create ::
  "conditions \<Rightarrow> Video \<Rightarrow> string \<Rightarrow> storage \<Rightarrow> (workflow_error + Video) \<times> storage" where
  "store_create c video key w =
     (case create_failure c key w of
        Some e \<Rightarrow> (Inl e, w)
      | None \<Rightarrow> (Inr video, w\<lparr>records := records w @ [video]\<rparr>))"

text \<open>
  The storage key: a fresh opaque identifier, here the decimal numeral of the number of
  identifiers drawn before, followed by the extension of the original file name.
\<close>

definition digit :: "nat \<Rightarrow> char" where
  "digit d = ''0123456789'' ! d"

fun digits :: "nat \<Rightarrow> string" where
  "digits n = (if n < 10 then [digit n] else digits (n div 10) @ [digit (n mod 10)])"

declare digits.simps [simp del]

definition extension :: "string \<Rightarrow> string" where
  "extension name =
     (if CHR ''.'' \<in> set name
      then CHR ''.'' # rev (takeWhile (\<lambda>c. c \<noteq> CHR ''.'') (rev name))
      else [])"

definition storage_key :: "nat \<Rightarrow> string \<Rightarrow> string" where
  "storage_key n name = digits n @ extension name"

definition video_media_type :: "string \<Rightarrow> bool" where
  "video_media_type t = prefix ''video/'' t"

definition valid_upload :: "File \<Rightarrow> bool" where
  "valid_upload file = (file_size file \<le> 2 * 1024 * 1024 * 1024 \<and> video_media_type (mimetype file))"

definition upload_workflow ::
  "conditions \<Rightarrow> File \<Rightarrow> CreateVideoDto \<Rightarrow> storage \<Rightarrow> (workflow_error + Video) \<times> storage" where
  "upload_workflow c file dto w =
     (if \<not> valid_upload file then (Inl ValidationError, w)
      else
        let key = storage_key (issued w) (originalname file);
            video = \<lparr>video_id = digits (issued w), title = dto_title dto,
                     description = dto_description dto, fileKey = Some key,
                     video_originalname = originalname file, video_size = file_size file,
                     video_mimetype = mimetype file\<rparr>
        in case gateway_put c key (file_size file) (w\<lparr>issued := Suc (issued w)\<rparr>) of
             (Inl e, w1) \<Rightarrow> (Inl e, w1)
           | (Inr _, w1) \<Rightarrow>
               (case store_create c video key w1 of
                  (Inl e, w2) \<Rightarrow> (case gateway_delete c key w2 of (_, w3) \<Rightarrow> (Inl e, w3))
                | (Inr created, w2) \<Rightarrow> (Inr created, w2)))"



section \<open>The middleware registered by \<^verbatim>\<open>bootstrap\<close>\<close>

text \<open>
  \<^verbatim>\<open>String.prototype.includes\<close>: the argument occurs somewhere in the receiver.
\<close>

fun js_includes :: "string \<Rightarrow> string \<Rightarrow> bool" where
  "js_includes [] sub = (sub = [])"
| "js_includes (c # cs) sub = (prefix sub (c # cs) \<or> js_includes cs sub)"

record Request =
  req_method :: string
  req_url :: "string option"
  req_headers :: "string \<rightharpoonup> string"
  req_ip :: string

text \<open>
  What the middleware changes while a request is handled: the response's headers and
  status, and the timeouts set on the request and on the response.
\<close>

record exchange =
  res_headers :: "string \<rightharpoonup> string"
  res_status :: int
  req_timeout :: "nat option"
  res_timeout :: "nat option"

text \<open>A middleware either calls \<^verbatim>\<open>next()\<close> or ends the response.\<close>

datatype flow = Next exchange | End exchange

fun run_chain :: "(Request \<Rightarrow> exchange \<Rightarrow> flow) list \<Rightarrow> Request \<Rightarrow> exchange \<Rightarrow> flow" where
  "run_chain [] req x = Next x"
| "run_chain (m # ms) req x =
     (case m req x of End x' \<Rightarrow> End x' | Next x' \<Rightarrow> run_chain ms req x')"

text \<open>
  \<^verbatim>\<open>app.use(path, handler)\<close>: the handler runs for a request whose path is the mount
  path or continues it with a \<^verbatim>\<open>/\<close>. The query string is not part of the path, and
  the comparison does not distinguish upper and lower case letters.
\<close>

definition lower_case :: "char \<Rightarrow> char" where
  "lower_case c =
     (case map_of (zip ''ABCDEFGHIJKLMNOPQRSTUVWXYZ'' ''abcdefghijklmnopqrstuvwxyz'') c of
        None \<Rightarrow> c
      | Some l \<Rightarrow> l)"

definition mounted :: "string \<Rightarrow> Request \<Rightarrow> bool" where
  "mounted path req =
     (case req_url req of
        None \<Rightarrow> False
      | Some u \<Rightarrow>
          let p = map lower_case (takeWhile (\<lambda>c. c \<noteq> CHR ''?'') u);
              m = map lower_case path
          in prefix m p \<and>
             (case drop (length m) p of [] \<Rightarrow> True | c # _ \<Rightarrow> c = CHR ''/''))"

definition app_use ::
  "string \<Rightarrow> (Request \<Rightarrow> exchange \<Rightarrow> flow) \<Rightarrow> Request \<Rightarrow> exchange \<Rightarrow> flow" where
  "app_use path handler req x = (if mounted path req then handler req x else Next x)"

definition upload_path :: string where
  "upload_path = ''/api/v1/videos/upload''"

definition production_frontend :: string where
  "production_frontend = ''https://videoteca-web-enfermeria.vercel.app''"

text \<open>
  \<^verbatim>\<open>app.enableCors(options)\<close> registers the CORS middleware at once, so it is the
  first stage of the chain. With the array \<^verbatim>\<open>origin\<close> of the options it allows the
  request's \<^verbatim>\<open>Origin\<close> when it is in the array, and then repeats it in
  \<^verbatim>\<open>Access-Control-Allow-Origin\<close>; for another origin, or none, it sets no such header.
  With \<^verbatim>\<open>preflightContinue: false\<close> it answers every \<^verbatim>\<open>OPTIONS\<close> request itself, with
  \<^verbatim>\<open>optionsSuccessStatus\<close>, and passes every other request on.
\<close>

definition cors_origin :: "string list" where
  "cors_origin =
     [''https://videoteca-web-enfermeria.vercel.app'',
      ''http://localhost:3000'',
      ''http://localhost:3001'',
      ''http://localhost:5173'',
      ''http://localhost:5174'',
      ''http://localhost:8080'']"

definition allow_origin :: "Request \<Rightarrow> exchange \<Rightarrow> exchange" where
  "allow_origin req x =
     (case req_headers req ''origin'' of
        None \<Rightarrow> x\<lparr>res_headers := (res_headers x)(''Vary'' \<mapsto> ''Origin'')\<rparr>
      | Some origin \<Rightarrow>
          if origin \<in> set cors_origin
          then x\<lparr>res_headers := (res_headers x)
                  (''Access-Control-Allow-Origin'' \<mapsto> origin, ''Vary'' \<mapsto> ''Origin'')\<rparr>
          else x\<lparr>res_headers := (res_headers x)(''Vary'' \<mapsto> ''Origin'')\<rparr>)"

definition enableCors :: "Request \<Rightarrow> exchange \<Rightarrow> flow" where
  "enableCors req x =
     (let x1 = allow_origin req x;
          x2 = x1\<lparr>res_headers := (res_headers x1)(''Access-Control-Allow-Credentials'' \<mapsto> ''true'')\<rparr>
      in if req_method req = ''OPTIONS''
         then End (x2\<lparr>res_headers := (res_headers x2)
                       (''Access-Control-Allow-Methods'' \<mapsto> ''GET,POST,PUT,DELETE,PATCH,OPTIONS'',
                        ''Access-Control-Allow-Headers'' \<mapsto>
                          ''Content-Type,Authorization,Accept,X-Requested-With,Origin,Cache-Control,Content-Length'',
                        ''Access-Control-Expose-Headers'' \<mapsto> ''set-cookie'',
                        ''Content-Length'' \<mapsto> ''0''),
                     res_status := 200\<rparr>)
         else Next (x2\<lparr>res_headers := (res_headers x2)
                        (''Access-Control-Expose-Headers'' \<mapsto> ''set-cookie'')\<rparr>))"

text \<open>The handler of the middleware mounted for the CORS preflight of uploads.\<close>

definition upload_cors :: "Request \<Rightarrow> exchange \<Rightarrow> flow" where
  "upload_cors req x =
     (if req_method req = ''OPTIONS''
      then End (x\<lparr>res_headers := (res_headers x)
                    (''Access-Control-Allow-Origin'' \<mapsto> production_frontend,
                     ''Access-Control-Allow-Methods'' \<mapsto> ''POST, OPTIONS'',
                     ''Access-Control-Allow-Headers'' \<mapsto>
                        ''Content-Type, Authorization, Accept, X-Requested-With, Origin'',
                     ''Access-Control-Max-Age'' \<mapsto> ''86400''),
                  res_status := 200\<rparr>)
      else Next x)"

text \<open>
  The two stages of the chain that deal with CORS, in the order in which \<^verbatim>\<open>bootstrap\<close>
  registers them, and the exchange a chain has ended, if it has.
\<close>

definition cors_stages :: "(Request \<Rightarrow> exchange \<Rightarrow> flow) list" where
  "cors_stages = [enableCors, app_use upload_path upload_cors]"

fun ended :: "flow \<Rightarrow> exchange option" where
  "ended (End x) = Some x"
| "ended (Next x) = None"

text \<open>
  \<^verbatim>\<open>rateLimit(options)\<close>: a request for which \<^verbatim>\<open>skip\<close> holds passes without being
  counted; any other request adds a hit for its client, and is refused once the client
  has more than \<^verbatim>\<open>max\<close> hits in the current window.
\<close>

record RateLimitOptions =
  windowMs :: nat
  limit_max :: nat
  skip :: "Request \<Rightarrow> bool"

datatype decision = Allowed | TooManyRequests

definition rateLimit ::
  "RateLimitOptions \<Rightarrow> Request \<Rightarrow> (string \<Rightarrow> nat) \<Rightarrow> decision \<times> (string \<Rightarrow> nat)" where
  "rateLimit options req hits =
     (if skip options req then (Allowed, hits)
      else
        let n = hits (req_ip req) + 1
        in (if n > limit_max options then TooManyRequests else Allowed,
            hits(req_ip req := n)))"

definition general_limit :: RateLimitOptions where
  "general_limit =
     \<lparr>windowMs = 15 * 60 * 1000,
      limit_max = 100,
      skip = (\<lambda>req. case req_url req of
                       None \<Rightarrow> False
                     | Some u \<Rightarrow> js_includes u ''/videos/upload'')\<rparr>"

definition upload_limit :: RateLimitOptions where
  "upload_limit = \<lparr>windowMs = 60 * 60 * 1000, limit_max = 10, skip = (\<lambda>req. False)\<rparr>"

text \<open>The hits counted by the two limiters, and a request going through both.\<close>

record limiters =
  general_hits :: "string \<Rightarrow> nat"
  upload_hits :: "string \<Rightarrow> nat"

definition rate_limiting :: "Request \<Rightarrow> limiters \<Rightarrow> decision \<times> limiters" where
  "rate_limiting req st =
     (case rateLimit general_limit req (general_hits st) of
        (TooManyRequests, g) \<Rightarrow> (TooManyRequests, st\<lparr>general_hits := g\<rparr>)
      | (Allowed, g) \<Rightarrow>
          if mounted upload_path req
          then (case rateLimit upload_limit req (upload_hits st) of
                  (d, u) \<Rightarrow> (d, \<lparr>general_hits = g, upload_hits = u\<rparr>))
          else (Allowed, st\<lparr>general_hits := g\<rparr>))"





section \<open>Sample inputs\<close>

definition big_file :: File where
  "big_file = \<lparr>originalname = ''lecture.mp4'', mimetype = ''video/mp4'', file_size = 2097152001\<rparr>"

definition small_file :: File where
  "small_file = \<lparr>originalname = ''procedure1.mp4'', mimetype = ''video/mp4'', file_size = 10485760\<rparr>"

definition playlist_file :: File where
  "playlist_file = \<lparr>originalname = ''list.txt'', mimetype = ''text/videolist'', file_size = 120\<rparr>"

definition sample_dto :: CreateVideoDto where
  "sample_dto = \<lparr>dto_title = ''IV Insertion'', dto_description = Some []\<rparr>"

definition upload_of :: "File \<Rightarrow> UploadRequest" where
  "upload_of f = \<lparr>authorized = True, upload_file = Some f, upload_body = Some sample_dto\<rparr>"

fun reported :: "FileValidator \<Rightarrow> File \<Rightarrow> string" where
  "reported (MaxFileSizeValidator maxSize) f =
     ''Validation failed (expected size is less than '' @ digits maxSize @ '')''"
| "reported (FileTypeValidator fileType) f =
     ''Validation failed (expected type is '' @ fileType @ '')''"

definition empty_storage :: storage where
  "empty_storage = \<lparr>objects = Map.empty, records = [], issued = 0, gateway_calls = []\<rparr>"


definition store_down :: conditions where
  "store_down = \<lparr>put_fails = False, create_fails = Some InternalError, delete_fails = False\<rparr>"



definition created_video :: "string \<Rightarrow> string \<Rightarrow> Video" where
  "created_video ident key =
     \<lparr>video_id = ident, title = ''IV Insertion'', description = Some [],
      fileKey = Some key, video_originalname = ''procedure1.mp4'',
      video_size = 10485760, video_mimetype = ''video/mp4''\<rparr>"

definition created :: "string \<Rightarrow> string \<Rightarrow> Video ApiResponse" where
  "created ident key =
     \<lparr>statusCode = 201, message = ''Video subido exitosamente'',
      data = Some (created_video ident key)\<rparr>"

definition upload_request :: Request where
  "upload_request =
     \<lparr>req_method = ''POST'', req_url = Some ''/api/v1/videos/upload'',
      req_headers = [''origin'' \<mapsto> ''https://videoteca-web-enfermeria.vercel.app''],
      req_ip = ''203.0.113.7''\<rparr>"

definition shouted_upload :: Request where
  "shouted_upload =
     \<lparr>req_method = ''POST'', req_url = Some ''/api/v1/videos/UPLOAD'',
      req_headers = [''origin'' \<mapsto> ''https://videoteca-web-enfermeria.vercel.app''],
      req_ip = ''203.0.113.7''\<rparr>"


definition preflight_production :: Request where
  "preflight_production =
     \<lparr>req_method = ''OPTIONS'', req_url = Some ''/api/v1/videos/upload'',
      req_headers = [''origin'' \<mapsto> ''https://videoteca-web-enfermeria.vercel.app''],
      req_ip = ''203.0.113.7''\<rparr>"

definition preflight_localhost :: Request where
  "preflight_localhost =
     preflight_production
       \<lparr>req_headers := (req_headers preflight_production)(''origin'' \<mapsto> ''http://localhost:5173'')\<rparr>"

definition fresh_exchange :: exchange where
  "fresh_exchange =
     \<lparr>res_headers = Map.empty, res_status = 200, req_timeout = None, res_timeout = None\<rparr>"

definition no_hits :: limiters where
  "no_hits = \<lparr>general_hits = (\<lambda>ip. 0), upload_hits = (\<lambda>ip. 0)\<rparr>"

section \<open>Properties of the controller\<close>

lemmas HttpStatus_defs =
  HttpStatus_OK_def HttpStatus_CREATED_def HttpStatus_NOT_FOUND_def
  HttpStatus_UNPROCESSABLE_ENTITY_def HttpStatus_INTERNAL_SERVER_ERROR_def

lemma await_eq:
  "await c f s = (fst (f (world s)), \<lparr>world = snd (f (world s)), calls = calls s @ [c]\<rparr>)"
  by (simp add: await_def split: prod.splits)

lemma catch_envelope_status:
  "statusCode (catch_envelope e d :: 'a ApiResponse) = translated_status e"
  by (simp add: catch_envelope_def translated_status_def or_number_def HttpStatus_defs
      split: option.splits)

lemma catch_envelope_data: "data (catch_envelope e d) = None"
  by (simp add: catch_envelope_def)

lemma null_unless_success_catch: "null_unless_success (catch_envelope e d)"
  by (simp add: null_unless_success_def catch_envelope_data)

lemmas handler_defs =
  uploadVideo_def findAll_def findOne_def getSignedUrl_def update_def remove_video_def

lemma null_unless_success_ok:
  "null_unless_success \<lparr>statusCode = HttpStatus_OK, message = m, data = d\<rparr>"
  by (simp add: null_unless_success_def HttpStatus_defs)

lemma null_unless_success_created:
  "null_unless_success \<lparr>statusCode = HttpStatus_CREATED, message = m, data = d\<rparr>"
  by (simp add: null_unless_success_def HttpStatus_defs)

lemma null_unless_success_null:
  "null_unless_success \<lparr>statusCode = c, message = m, data = None\<rparr>"
  by (simp add: null_unless_success_def)

lemmas null_unless_success_simps =
  null_unless_success_catch null_unless_success_ok null_unless_success_created
  null_unless_success_null

lemma uploadVideo_null_unless_success: "null_unless_success (fst (uploadVideo vs f dto s))"
  by (simp add: uploadVideo_def await_eq null_unless_success_simps split: sum.split)

lemma findAll_null_unless_success: "null_unless_success (fst (findAll vs s))"
  by (simp add: findAll_def await_eq null_unless_success_simps split: sum.split)

lemma findOne_null_unless_success: "null_unless_success (fst (findOne vs ident s))"
  by (simp add: findOne_def await_eq null_unless_success_simps split: sum.split option.split)

lemma getSignedUrl_null_unless_success:
  "null_unless_success (fst (getSignedUrl vs s3Service ident s))"
  by (simp add: getSignedUrl_def Let_def await_eq null_unless_success_simps
      split: sum.split option.split)

lemma update_null_unless_success: "null_unless_success (fst (update vs ident upd s))"
  by (simp add: update_def await_eq null_unless_success_simps split: sum.split option.split)

lemma remove_video_null_unless_success: "null_unless_success (fst (remove_video vs ident s))"
  by (simp add: remove_video_def await_eq null_unless_success_simps
      split: sum.split option.split)

text \<open>
  C9. For every endpoint of the controller, an envelope whose \<^verbatim>\<open>statusCode\<close> is not a
  success code (200 or 201) has \<^verbatim>\<open>data: null\<close>: data is only returned together with a
  success code. The same holds for the envelope the file pipe's \<^verbatim>\<open>exceptionFactory\<close>
  builds.
\<close>

theorem data_only_with_success:
  "null_unless_success (fst (uploadVideo vs f dto s))
   \<and> null_unless_success (fst (findAll vs s))
   \<and> null_unless_success (fst (findOne vs ident s))
   \<and> null_unless_success (fst (getSignedUrl vs s3Service ident s))
   \<and> null_unless_success (fst (update vs ident upd s))
   \<and> null_unless_success (fst (remove_video vs ident s))
   \<and> null_unless_success (exceptionFactory text)"
  by (simp add: uploadVideo_null_unless_success findAll_null_unless_success
      findOne_null_unless_success getSignedUrl_null_unless_success
      update_null_unless_success remove_video_null_unless_success
      exceptionFactory_def null_unless_success_null)

theorem data_only_with_success_witness:
  "statusCode (fst (getSignedUrl (stub_VideoService (Inr sample_video) (Inr []) (Inr None))
                      (stub_S3Service (Inr ''https://signed'')) ''v9'' start)) = 404
   \<and> data (fst (getSignedUrl (stub_VideoService (Inr sample_video) (Inr []) (Inr None))
                      (stub_S3Service (Inr ''https://signed'')) ''v9'' start)) = None"
  using data_only_with_success
    [where vs = "stub_VideoService (Inr sample_video) (Inr []) (Inr None)" and s = start
       and s3Service = "stub_S3Service (Inr ''https://signed'')" and ident = "''v9''"]
  by (simp add: null_unless_success_def getSignedUrl_def Let_def await_eq
      stub_VideoService_def start_def HttpStatus_defs)

text \<open>
  C4. When the service reports that the id is absent from the record store (its
  \<^verbatim>\<open>findOne\<close>, \<^verbatim>\<open>update\<close> or \<^verbatim>\<open>remove\<close> resolves to \<^verbatim>\<open>null\<close>), the read, update and
  delete endpoints each return the envelope with \<^verbatim>\<open>statusCode\<close> 200, \<^verbatim>\<open>data: null\<close> and
  the message \<^verbatim>\<open>Video no encontrado\<close>, not an error status.
\<close>

theorem lookup_miss_is_success:
  "(fst (videoService_findOne vs ident (world s)) = Inr None \<longrightarrow>
      fst (findOne vs ident s)
        = \<lparr>statusCode = 200, message = ''Video no encontrado'', data = None\<rparr>)
   \<and> (fst (videoService_update vs ident upd (world s)) = Inr None \<longrightarrow>
      fst (update vs ident upd s)
        = \<lparr>statusCode = 200, message = ''Video no encontrado'', data = None\<rparr>)
   \<and> (fst (videoService_remove vs ident (world s)) = Inr None \<longrightarrow>
      fst (remove_video vs ident s)
        = \<lparr>statusCode = 200, message = ''Video no encontrado'', data = None\<rparr>)"
  by (simp add: handler_defs await_eq HttpStatus_defs)

theorem lookup_miss_is_success_witness:
  "fst (findOne (stub_VideoService (Inr sample_video) (Inr []) (Inr None)) ''v9'' start)
     = \<lparr>statusCode = 200, message = ''Video no encontrado'', data = None\<rparr>
   \<and> fst (update (stub_VideoService (Inr sample_video) (Inr []) (Inr None)) ''v9''
            \<lparr>upd_title = Some ''t'', upd_description = None\<rparr> start)
     = \<lparr>statusCode = 200, message = ''Video no encontrado'', data = None\<rparr>
   \<and> fst (remove_video (stub_VideoService (Inr sample_video) (Inr []) (Inr None)) ''v9'' start)
     = \<lparr>statusCode = 200, message = ''Video no encontrado'', data = None\<rparr>"
  using lookup_miss_is_success
    [where vs = "stub_VideoService (Inr sample_video) (Inr []) (Inr None)"
       and ident = "''v9''" and s = start
       and upd = "\<lparr>upd_title = Some ''t'', upd_description = None\<rparr>"]
  by (simp add: stub_VideoService_def)

text \<open>
  C3. Signed-URL issuance: when the record is absent, or has no storage key (the key is
  missing or empty), the endpoint answers 404 \<^verbatim>\<open>Video no encontrado\<close> and the only
  service call made is the record lookup, so the storage gateway is not called;
  otherwise it asks the gateway for the signed URL of the record's storage key and
  returns the URL the gateway gives with status 200.
\<close>

theorem signed_url_issuance:
  "(videoService_findOne vs ident (world s) = (Inr None, w) \<longrightarrow>
      getSignedUrl vs s3Service ident s
        = (\<lparr>statusCode = 404, message = ''Video no encontrado'', data = None\<rparr>,
           \<lparr>world = w, calls = calls s @ [Call_findOne ident]\<rparr>))
   \<and> (videoService_findOne vs ident (world s) = (Inr (Some video), w)
        \<and> (fileKey video = None \<or> fileKey video = Some []) \<longrightarrow>
      getSignedUrl vs s3Service ident s
        = (\<lparr>statusCode = 404, message = ''Video no encontrado'', data = None\<rparr>,
           \<lparr>world = w, calls = calls s @ [Call_findOne ident]\<rparr>))
   \<and> (videoService_findOne vs ident (world s) = (Inr (Some video), w)
        \<and> fileKey video = Some key \<and> key \<noteq> []
        \<and> s3Service_getSignedUrl s3Service key w = (Inr url, w') \<longrightarrow>
      getSignedUrl vs s3Service ident s
        = (\<lparr>statusCode = 200, message = ''URL firmada obtenida exitosamente'', data = Some url\<rparr>,
           \<lparr>world = w', calls = calls s @ [Call_findOne ident, Call_getSignedUrl key]\<rparr>))"
  by (auto simp: getSignedUrl_def Let_def await_eq HttpStatus_defs)

theorem signed_url_issuance_witness:
  "getSignedUrl (stub_VideoService (Inr sample_video) (Inr []) (Inr None))
       (stub_S3Service (Inr ''https://signed'')) ''v9'' start
     = (\<lparr>statusCode = 404, message = ''Video no encontrado'', data = None\<rparr>,
        \<lparr>world = (), calls = [Call_findOne ''v9'']\<rparr>)
   \<and> getSignedUrl (stub_VideoService (Inr sample_video) (Inr [])
                     (Inr (Some (sample_video\<lparr>fileKey := Some []\<rparr>))))
       (stub_S3Service (Inr ''https://signed'')) ''v1'' start
     = (\<lparr>statusCode = 404, message = ''Video no encontrado'', data = None\<rparr>,
        \<lparr>world = (), calls = [Call_findOne ''v1'']\<rparr>)
   \<and> getSignedUrl (stub_VideoService (Inr sample_video) (Inr []) (Inr (Some sample_video)))
       (stub_S3Service (Inr ''https://signed'')) ''v1'' start
     = (\<lparr>statusCode = 200, message = ''URL firmada obtenida exitosamente'',
         data = Some ''https://signed''\<rparr>,
        \<lparr>world = (), calls = [Call_findOne ''v1'', Call_getSignedUrl ''7.mp4'']\<rparr>)"
  using
    signed_url_issuance
      [where vs = "stub_VideoService (Inr sample_video) (Inr []) (Inr None)"
         and ident = "''v9''" and s = start and w = "()"
         and s3Service = "stub_S3Service (Inr ''https://signed'')"]
    signed_url_issuance
      [where vs = "stub_VideoService (Inr sample_video) (Inr [])
                     (Inr (Some (sample_video\<lparr>fileKey := Some []\<rparr>)))"
         and ident = "''v1''" and s = start and w = "()"
         and s3Service = "stub_S3Service (Inr ''https://signed'')"
         and video = "sample_video\<lparr>fileKey := Some []\<rparr>"]
    signed_url_issuance
      [where vs = "stub_VideoService (Inr sample_video) (Inr []) (Inr (Some sample_video))"
         and ident = "''v1''" and s = start and w = "()"
         and s3Service = "stub_S3Service (Inr ''https://signed'')"
         and video = sample_video and key = "''7.mp4''" and url = "''https://signed''"
         and w' = "()"]
  by (simp add: stub_VideoService_def stub_S3Service_def start_def sample_video_def)

text \<open>
  C6. In every endpoint, an error raised by a service call is caught by the handler,
  which returns an envelope with \<^verbatim>\<open>data: null\<close>; the envelope's \<^verbatim>\<open>statusCode\<close> is the
  error's own code when the error carries one, and 500 when it does not.
\<close>

theorem errors_become_envelopes:
  "(fst (videoService_upload vs f dto (world s)) = Inl e \<longrightarrow>
      statusCode (fst (uploadVideo vs f dto s)) = translated_status e
      \<and> data (fst (uploadVideo vs f dto s)) = None)
   \<and> (fst (videoService_findAll vs (world s)) = Inl e \<longrightarrow>
      statusCode (fst (findAll vs s)) = translated_status e
      \<and> data (fst (findAll vs s)) = None)
   \<and> (fst (videoService_findOne vs ident (world s)) = Inl e \<longrightarrow>
      statusCode (fst (findOne vs ident s)) = translated_status e
      \<and> data (fst (findOne vs ident s)) = None
      \<and> statusCode (fst (getSignedUrl vs s3Service ident s)) = translated_status e
      \<and> data (fst (getSignedUrl vs s3Service ident s)) = None)
   \<and> (videoService_findOne vs ident (world s) = (Inr (Some video), w)
        \<and> fileKey video = Some key \<and> key \<noteq> []
        \<and> fst (s3Service_getSignedUrl s3Service key w) = Inl e \<longrightarrow>
      statusCode (fst (getSignedUrl vs s3Service ident s)) = translated_status e
      \<and> data (fst (getSignedUrl vs s3Service ident s)) = None)
   \<and> (fst (videoService_update vs ident upd (world s)) = Inl e \<longrightarrow>
      statusCode (fst (update vs ident upd s)) = translated_status e
      \<and> data (fst (update vs ident upd s)) = None)
   \<and> (fst (videoService_remove vs ident (world s)) = Inl e \<longrightarrow>
      statusCode (fst (remove_video vs ident s)) = translated_status e
      \<and> data (fst (remove_video vs ident s)) = None)"
  by (simp add: handler_defs await_eq catch_envelope_status catch_envelope_data)

theorem errors_become_envelopes_witness:
  "statusCode (fst (uploadVideo (stub_VideoService (Inl plain_error) (Inl plain_error) (Inl plain_error))
       \<lparr>originalname = ''procedure1.mp4'', mimetype = ''video/mp4'', file_size = 10485760\<rparr>
       \<lparr>dto_title = ''IV Insertion'', dto_description = None\<rparr> start)) = 500
   \<and> statusCode (fst (findAll (stub_VideoService (Inl plain_error) (Inl plain_error) (Inl plain_error)) start)) = 500
   \<and> statusCode (fst (findOne (stub_VideoService (Inl plain_error) (Inl plain_error) (Inl plain_error)) ''v1'' start)) = 500
   \<and> statusCode (fst (update (stub_VideoService (Inl plain_error) (Inl plain_error) (Inl plain_error)) ''v1''
        \<lparr>upd_title = None, upd_description = None\<rparr> start)) = 500
   \<and> statusCode (fst (remove_video (stub_VideoService (Inl plain_error) (Inl plain_error) (Inl plain_error)) ''v1'' start)) = 500
   \<and> statusCode (fst (getSignedUrl (stub_VideoService (Inr sample_video) (Inr []) (Inr (Some sample_video)))
        (stub_S3Service (Inl not_found_error)) ''v1'' start)) = 404
   \<and> data (fst (getSignedUrl (stub_VideoService (Inr sample_video) (Inr []) (Inr (Some sample_video)))
        (stub_S3Service (Inl not_found_error)) ''v1'' start)) = None"
  using
    errors_become_envelopes
      [where vs = "stub_VideoService (Inl plain_error) (Inl plain_error) (Inl plain_error)"
         and f = "\<lparr>originalname = ''procedure1.mp4'', mimetype = ''video/mp4'',
                       file_size = 10485760\<rparr>"
         and dto = "\<lparr>dto_title = ''IV Insertion'', dto_description = None\<rparr>"
         and s = start and e = plain_error and ident = "''v1''"
         and upd = "\<lparr>upd_title = None, upd_description = None\<rparr>"]
    errors_become_envelopes
      [where vs = "stub_VideoService (Inr sample_video) (Inr []) (Inr (Some sample_video))"
         and s = start and e = not_found_error and ident = "''v1''" and video = sample_video
         and w = "()" and key = "''7.mp4''"
         and s3Service = "stub_S3Service (Inl not_found_error)"]
  by (simp add: stub_VideoService_def stub_S3Service_def start_def sample_video_def
      translated_status_def plain_error_def not_found_error_def)

section \<open>Properties of the validation\<close>

lemma video_mp4_matches: "js_match ''video/mp4'' ''video/*''"
  by (simp add: js_match_def)


text \<open>
  C1. The claim holds that a file is accepted if and only if its size is at most 2 GiB
  and its content type is a video media type, and the comments in the source give the
  limit as 2GB. The endpoint does otherwise on two inputs. A video of 2097152001 bytes
  is within 2 GiB, and the interceptor stops it with 413, the limit being
  1024 * 1024 * 2000 bytes. A file of type \<^verbatim>\<open>text/videolist\<close> is no video, and the
  pipe lets it through to the handler, \<^verbatim>\<open>'video/*'\<close> being searched for as a regular
  expression. The rejected request leaves the run as it was.
\<close>

theorem two_gib_video_rejected:
  "file_size big_file \<le> 2 * 1024 * 1024 * 1024
   \<and> js_match (mimetype big_file) ''video/*''
   \<and> upload_endpoint reported (stub_VideoService (Inr sample_video) (Inr []) (Inr None))
         (upload_of big_file) start = (Rejected PayloadTooLarge, start)
   \<and> \<not> video_media_type (mimetype playlist_file)
   \<and> upload_endpoint reported (stub_VideoService (Inr sample_video) (Inr []) (Inr None))
         (upload_of playlist_file) start
       = (Handled \<lparr>statusCode = 201, message = ''Video subido exitosamente'',
                   data = Some sample_video\<rparr>,
          \<lparr>world = (), calls = [Call_upload playlist_file sample_dto]\<rparr>)"
  by (simp add: big_file_def playlist_file_def upload_of_def video_mp4_matches
      video_media_type_def upload_endpoint_def limits_fileSize_def validators_def js_match_def
      uploadVideo_def await_eq stub_VideoService_def start_def HttpStatus_defs)

section \<open>Properties of the upload workflow\<close>

text \<open>
  C2. In a run of the upload workflow in which the gateway's \<open>put\<close> succeeds and the
  store's \<open>create\<close> fails with an error, the workflow asks the gateway exactly once to
  delete the uploaded object, after the \<open>put\<close>, creates no record, and returns the
  error of \<open>create\<close>, whether the delete succeeds or fails.
\<close>

theorem compensating_delete:
  assumes "valid_upload f" and "\<not> put_fails c"
    and "create_failure c (storage_key (issued w) (originalname f)) w = Some e"
  shows "fst (upload_workflow (c\<lparr>delete_fails := d\<rparr>) f dto w) = Inl e
    \<and> gateway_calls (snd (upload_workflow (c\<lparr>delete_fails := d\<rparr>) f dto w))
        = gateway_calls w @ [Put (storage_key (issued w) (originalname f)) (file_size f),
                             Delete (storage_key (issued w) (originalname f))]
    \<and> records (snd (upload_workflow (c\<lparr>delete_fails := d\<rparr>) f dto w)) = records w"
  using assms
  by (auto simp: upload_workflow_def Let_def gateway_put_def store_create_def
      gateway_delete_def create_failure_def split: option.splits if_splits)

theorem compensating_delete_witness:
  "valid_upload small_file \<and> \<not> put_fails store_down
   \<and> create_failure store_down ''0.mp4'' empty_storage = Some InternalError
   \<and> fst (upload_workflow (store_down\<lparr>delete_fails := True\<rparr>) small_file sample_dto empty_storage)
       = Inl InternalError
   \<and> gateway_calls (snd (upload_workflow (store_down\<lparr>delete_fails := True\<rparr>) small_file
                           sample_dto empty_storage))
       = [Put ''0.mp4'' 10485760, Delete ''0.mp4'']"
proof -
  have k: "storage_key (issued empty_storage) (originalname small_file) = ''0.mp4''"
    by (simp add: storage_key_def extension_def digits.simps [of 0] digit_def
        empty_storage_def small_file_def)
  have v: "valid_upload small_file"
    by (simp add: valid_upload_def video_media_type_def small_file_def)
  have p: "\<not> put_fails store_down"
    by (simp add: store_down_def)
  have c: "create_failure store_down (storage_key (issued empty_storage) (originalname small_file))
             empty_storage = Some InternalError"
    by (simp add: create_failure_def store_down_def)
  from compensating_delete [OF v p c, of True sample_dto] v p c
  show ?thesis
    unfolding k by (simp add: empty_storage_def small_file_def)
qed































section \<open>Properties of the middleware\<close>



lemma shouted_upload_mounted: "mounted upload_path shouted_upload"
  by (simp add: mounted_def upload_path_def shouted_upload_def lower_case_def)

text \<open>
  C8. The claim holds that a request to the upload path is never counted against the
  general limiter, and the comment in the source says that the general limiter skips
  video uploads. A request to \<^verbatim>\<open>/api/v1/videos/UPLOAD\<close> is routed to the upload path, so
  the upload limiter counts it; the \<^verbatim>\<open>skip\<close> of the general limiter looks for
  \<^verbatim>\<open>/videos/upload\<close> as written, does not find it, and the general limiter counts the
  request too. The same request in lower case is counted by the upload limiter alone.
\<close>

theorem uppercase_upload_counted_twice:
  "mounted upload_path shouted_upload
   \<and> \<not> skip general_limit shouted_upload
   \<and> fst (rate_limiting shouted_upload no_hits) = Allowed
   \<and> general_hits (snd (rate_limiting shouted_upload no_hits)) ''203.0.113.7'' = 1
   \<and> upload_hits (snd (rate_limiting shouted_upload no_hits)) ''203.0.113.7'' = 1
   \<and> mounted upload_path upload_request
   \<and> general_hits (snd (rate_limiting upload_request no_hits)) ''203.0.113.7'' = 0
   \<and> upload_hits (snd (rate_limiting upload_request no_hits)) ''203.0.113.7'' = 1"
proof -
  have up: "mounted upload_path upload_request"
    by (simp add: mounted_def upload_path_def upload_request_def lower_case_def)
  have "\<not> skip general_limit shouted_upload"
    by (simp add: general_limit_def shouted_upload_def)
  moreover have "rate_limiting shouted_upload no_hits
      = (Allowed, \<lparr>general_hits = (\<lambda>ip. 0)(''203.0.113.7'' := 1),
                   upload_hits = (\<lambda>ip. 0)(''203.0.113.7'' := 1)\<rparr>)"
    using shouted_upload_mounted
    by (simp add: rate_limiting_def rateLimit_def general_limit_def upload_limit_def
        no_hits_def shouted_upload_def Let_def)
  moreover have "rate_limiting upload_request no_hits
      = (Allowed, \<lparr>general_hits = (\<lambda>ip. 0),
                   upload_hits = (\<lambda>ip. 0)(''203.0.113.7'' := 1)\<rparr>)"
    using up
    by (simp add: rate_limiting_def rateLimit_def general_limit_def upload_limit_def
        no_hits_def upload_request_def Let_def)
  ultimately show ?thesis
    using shouted_upload_mounted up by simp
qed

text \<open>
  C10. The claim holds that two \<^verbatim>\<open>OPTIONS\<close> requests to the upload path that differ only
  in their \<^verbatim>\<open>Origin\<close> header get the same response from the upload CORS middleware,
  with \<^verbatim>\<open>Access-Control-Allow-Origin\<close> fixed to the production frontend. In the chain
  that \<^verbatim>\<open>bootstrap\<close> builds, the stage of \<^verbatim>\<open>enableCors\<close> comes first and ends every
  \<^verbatim>\<open>OPTIONS\<close> request, so the upload CORS middleware is not reached: the two requests
  below, which differ only in \<^verbatim>\<open>Origin\<close>, are both answered with status 200 and with
  their own origin in \<^verbatim>\<open>Access-Control-Allow-Origin\<close>.
\<close>

theorem preflight_answered_by_enableCors:
  "preflight_localhost
     = preflight_production
         \<lparr>req_headers := (req_headers preflight_production)(''origin'' \<mapsto> ''http://localhost:5173'')\<rparr>
   \<and> req_method preflight_production = ''OPTIONS''
   \<and> mounted upload_path preflight_production
   \<and> run_chain cors_stages preflight_production fresh_exchange
       = enableCors preflight_production fresh_exchange
   \<and> run_chain cors_stages preflight_localhost fresh_exchange
       = enableCors preflight_localhost fresh_exchange
   \<and> map_option (\<lambda>x. (res_status x, res_headers x ''Access-Control-Allow-Origin''))
        (ended (run_chain cors_stages preflight_production fresh_exchange))
       = Some (200, Some production_frontend)
   \<and> map_option (\<lambda>x. (res_status x, res_headers x ''Access-Control-Allow-Origin''))
        (ended (run_chain cors_stages preflight_localhost fresh_exchange))
       = Some (200, Some ''http://localhost:5173'')"
  by (simp add: preflight_localhost_def preflight_production_def cors_stages_def
      enableCors_def allow_origin_def cors_origin_def production_frontend_def mounted_def
      upload_path_def lower_case_def Let_def)









end
